theory Spec2Isabelle
  imports Main
begin

section \<open>WindowManager.cpp: a window and an OpenGL context through GLFW and GLEW\<close>

text \<open>
  The file holds the program entry point \<open>main\<close> and the four methods of
  \<open>WindowManager\<close>: \<open>Initialize\<close>, \<open>SwapBuffers\<close>, \<open>ProcessInput\<close> and \<open>Destroy\<close>.
  Each is a straight sequence of calls into GLFW and GLEW. The embedding passes the state
  explicitly: the one field of the class (\<open>Window\<close>), the global \<open>glewExperimental\<close>,
  standard error, the state of the GLFW library, and a log of the library calls in the
  order the code makes them.
\<close>

subsection \<open>Handles and the constants of the library headers\<close>

text \<open>A pointer (\<open>void*\<close>, \<open>GLFWwindow*\<close>, \<open>GLFWmonitor*\<close>): an address, 0 for \<open>nullptr\<close>.\<close>

type_synonym handle = nat

definition nullptr :: handle where
  "nullptr = 0"

text \<open>The macros the code names, with the values of \<open>glfw3.h\<close> and \<open>glew.h\<close>.\<close>

definition GL_TRUE :: int where "GL_TRUE = 1"
definition GLFW_PRESS :: int where "GLFW_PRESS = 1"
definition GLFW_KEY_ESCAPE :: int where "GLFW_KEY_ESCAPE = 256"
definition GLFW_SAMPLES :: int where "GLFW_SAMPLES = 0x0002100D"
definition GLFW_CONTEXT_VERSION_MAJOR :: int where "GLFW_CONTEXT_VERSION_MAJOR = 0x00022002"
definition GLFW_CONTEXT_VERSION_MINOR :: int where "GLFW_CONTEXT_VERSION_MINOR = 0x00022003"
definition GLFW_OPENGL_PROFILE :: int where "GLFW_OPENGL_PROFILE = 0x00022008"
definition GLFW_OPENGL_CORE_PROFILE :: int where "GLFW_OPENGL_CORE_PROFILE = 0x00032001"
definition GLFW_STICKY_KEYS :: int where "GLFW_STICKY_KEYS = 0x00033002"
definition GLEW_OK :: nat where "GLEW_OK = 0"

subsection \<open>The state\<close>

text \<open>Every call the file makes into GLFW or GLEW, with its arguments.\<close>

datatype call =
    GlfwInit
  | GlfwWindowHint int int
  | GlfwGetPrimaryMonitor
  | GlfwCreateWindow int int string handle handle
  | GlfwMakeContextCurrent handle
  | GlfwSetInputMode handle int int
  | GlewInit
  | GlfwSwapBuffers handle
  | GlfwGetKey handle int
  | GlfwWindowShouldClose handle
  | GlfwPollEvents
  | GlfwTerminate

text \<open>A window of the library, as \<open>glfwCreateWindow\<close> made it.\<close>

record window =
  win_width :: int
  win_height :: int
  win_title :: string
  win_monitor :: handle
  win_share :: handle
  win_hints :: "int \<rightharpoonup> int"
  win_modes :: "int \<rightharpoonup> int"

record world =
  Window :: handle
  glewExperimental :: int
  stderr :: "string list"
  calls :: "call list"
  initialized :: bool
  hints :: "int \<rightharpoonup> int"
  windows :: "handle \<rightharpoonup> window"
  current :: handle

text \<open>
  What the platform answers during one call of \<open>Initialize\<close>: the return values of
  \<open>glfwInit\<close>, \<open>glfwGetPrimaryMonitor\<close>, \<open>glfwCreateWindow\<close> and \<open>glewInit\<close>.
  They are inputs of the model: the code only branches on them.
\<close>

record platform =
  glfwInit_ret :: int
  primary_monitor :: handle
  created_window :: handle
  glewInit_ret :: nat

text \<open>
  What the library answers during one call of \<open>ProcessInput\<close>: the return values of
  \<open>glfwGetKey\<close> and \<open>glfwWindowShouldClose\<close>.
\<close>

record answers =
  key_ret :: int
  close_ret :: int

subsection \<open>The library calls\<close>

definition record_call :: "call \<Rightarrow> world \<Rightarrow> world" where
  "record_call c s = s\<lparr>calls := calls s @ [c]\<rparr>"

text \<open>\<open>fprintf(stderr, msg)\<close>\<close>

definition fprintf_stderr :: "string \<Rightarrow> world \<Rightarrow> world" where
  "fprintf_stderr msg s = s\<lparr>stderr := stderr s @ [msg]\<rparr>"

text \<open>
  Modelled from the spec: GLFW is an external library and not among the sources.
  \<open>glfwTerminate\<close> "releases the window/context and terminates the underlying library's
  state" (the code's comment: "closes the OpenGL window and terminates the application"):
  every window and its context is destroyed, no context stays current, the hints are
  forgotten and the library is no longer initialized.
\<close>

definition glfwTerminate :: "world \<Rightarrow> world" where
  "glfwTerminate s =
     (record_call GlfwTerminate s)
       \<lparr>initialized := False, hints := Map.empty, windows := Map.empty, current := nullptr\<rparr>"

text \<open>
  Modelled from the spec: \<open>glfwInit\<close> returns the platform's answer; a non-zero answer
  leaves the library initialized, a zero answer leaves it terminated with nothing
  allocated.
\<close>

definition glfwInit :: "int \<Rightarrow> world \<Rightarrow> int \<times> world" where
  "glfwInit r s =
     (let s1 = record_call GlfwInit s in
      if r = 0
      then (r, s1\<lparr>initialized := False, hints := Map.empty, windows := Map.empty,
                   current := nullptr\<rparr>)
      else (r, s1\<lparr>initialized := True\<rparr>))"

text \<open>Modelled from the spec: a hint is kept for the windows created later.\<close>

definition glfwWindowHint :: "int \<Rightarrow> int \<Rightarrow> world \<Rightarrow> world" where
  "glfwWindowHint h v s = (record_call (GlfwWindowHint h v) s)\<lparr>hints := (hints s)(h \<mapsto> v)\<rparr>"

definition glfwGetPrimaryMonitor :: "handle \<Rightarrow> world \<Rightarrow> handle \<times> world" where
  "glfwGetPrimaryMonitor m s = (m, record_call GlfwGetPrimaryMonitor s)"

text \<open>
  Modelled from the spec: \<open>glfwCreateWindow\<close> returns the platform's answer, \<open>nullptr\<close>
  when the window cannot be created; otherwise the window and its context exist from
  then on, made with the hints set so far.
\<close>

definition glfwCreateWindow ::
  "handle \<Rightarrow> int \<Rightarrow> int \<Rightarrow> string \<Rightarrow> handle \<Rightarrow> handle \<Rightarrow> world \<Rightarrow> handle \<times> world" where
  "glfwCreateWindow r width height title monitor share s =
     (let s1 = record_call (GlfwCreateWindow width height title monitor share) s in
      if r = nullptr then (r, s1)
      else (r, s1\<lparr>windows := (windows s1)(r \<mapsto>
              \<lparr>win_width = width, win_height = height, win_title = title,
               win_monitor = monitor, win_share = share, win_hints = hints s1,
               win_modes = Map.empty\<rparr>)\<rparr>))"

definition glfwMakeContextCurrent :: "handle \<Rightarrow> world \<Rightarrow> world" where
  "glfwMakeContextCurrent w s = (record_call (GlfwMakeContextCurrent w) s)\<lparr>current := w\<rparr>"

definition glfwSetInputMode :: "handle \<Rightarrow> int \<Rightarrow> int \<Rightarrow> world \<Rightarrow> world" where
  "glfwSetInputMode w mode v s =
     (let s1 = record_call (GlfwSetInputMode w mode v) s in
      case windows s1 w of
        None \<Rightarrow> s1
      | Some win \<Rightarrow> s1\<lparr>windows := (windows s1)(w \<mapsto> win\<lparr>win_modes := (win_modes win)(mode \<mapsto> v)\<rparr>)\<rparr>)"

definition glewInit :: "nat \<Rightarrow> world \<Rightarrow> nat \<times> world" where
  "glewInit r s = (r, record_call GlewInit s)"

definition glfwSwapBuffers :: "handle \<Rightarrow> world \<Rightarrow> world" where
  "glfwSwapBuffers w s = record_call (GlfwSwapBuffers w) s"

definition glfwGetKey :: "int \<Rightarrow> handle \<Rightarrow> int \<Rightarrow> world \<Rightarrow> int \<times> world" where
  "glfwGetKey r w key s = (r, record_call (GlfwGetKey w key) s)"

definition glfwWindowShouldClose :: "int \<Rightarrow> handle \<Rightarrow> world \<Rightarrow> int \<times> world" where
  "glfwWindowShouldClose r w s = (r, record_call (GlfwWindowShouldClose w) s)"

definition glfwPollEvents :: "world \<Rightarrow> world" where
  "glfwPollEvents s = record_call GlfwPollEvents s"

subsection \<open>WindowManager\<close>

text \<open>The three diagnostics of \<open>Initialize\<close>, each ending in a newline.\<close>

definition msg_glfw :: string where
  "msg_glfw = ''Failed to initialize GLFW'' @ [CHR 0x0A]"

definition msg_window :: string where
  "msg_window =
     ''Failed to create a GLFW window, you might need to download the latest drivers or change the OpenGL version to 3''
       @ [CHR 0x0A]"

definition msg_glew :: string where
  "msg_glew = ''Failed to initialize glew'' @ [CHR 0x0A]"

text \<open>
  \<open>std::string::c_str()\<close>: the C string handed to the library. A reader of a C string
  stops at the first NUL byte, so a title with an embedded NUL reaches the library as the
  part before it.
\<close>

definition c_str :: "string \<Rightarrow> string" where
  "c_str str = takeWhile (\<lambda>c. c \<noteq> CHR 0x00) str"

text \<open>\<open>void WindowManager::Destroy()\<close>\<close>

definition Destroy :: "world \<Rightarrow> world" where
  "Destroy s = glfwTerminate s"

text \<open>\<open>int WindowManager::Initialize(int width, int height, std::string strTitle, bool bFullScreen)\<close>\<close>

definition Initialize ::
  "platform \<Rightarrow> int \<Rightarrow> int \<Rightarrow> string \<Rightarrow> bool \<Rightarrow> world \<Rightarrow> int \<times> world" where
  "Initialize p width height strTitle bFullScreen s0 =
     (case glfwInit (glfwInit_ret p) s0 of (ok, s1) \<Rightarrow>
      if ok = 0 then (- 1, fprintf_stderr msg_glfw s1)
      else
        let s2 = glfwWindowHint GLFW_SAMPLES 4 s1;
            s3 = glfwWindowHint GLFW_CONTEXT_VERSION_MAJOR 4 s2;
            s4 = glfwWindowHint GLFW_CONTEXT_VERSION_MINOR 4 s3;
            s5 = glfwWindowHint GLFW_OPENGL_PROFILE GLFW_OPENGL_CORE_PROFILE s4;
            (w, s6) =
              (if bFullScreen
               then (case glfwGetPrimaryMonitor (primary_monitor p) s5 of (m, s5') \<Rightarrow>
                       glfwCreateWindow (created_window p) width height (c_str strTitle) m
                         nullptr s5')
               else glfwCreateWindow (created_window p) width height (c_str strTitle) nullptr
                      nullptr s5);
            s7 = s6\<lparr>Window := w\<rparr>
        in
          if Window s7 = nullptr
          then (- 1, Destroy (fprintf_stderr msg_window s7))
          else
            let s8 = glfwMakeContextCurrent (Window s7) s7;
                s9 = glfwSetInputMode (Window s8) GLFW_STICKY_KEYS GL_TRUE s8;
                s10 = s9\<lparr>glewExperimental := GL_TRUE\<rparr>;
                (err, s11) = glewInit (glewInit_ret p) s10
            in
              if GLEW_OK \<noteq> err then (- 1, fprintf_stderr msg_glew s11)
              else (0, s11))"

text \<open>\<open>void WindowManager::SwapBuffers()\<close>\<close>

definition SwapBuffers :: "world \<Rightarrow> world" where
  "SwapBuffers s = glfwSwapBuffers (Window s) s"

text \<open>
  \<open>bool WindowManager::ProcessInput(bool continueGame)\<close>. The condition is a C++ \<open>||\<close>:
  \<open>glfwWindowShouldClose\<close> is called only when the key is not reported pressed.
\<close>

definition ProcessInput :: "answers \<Rightarrow> bool \<Rightarrow> world \<Rightarrow> bool \<times> world" where
  "ProcessInput a continueGame s0 =
     (case glfwGetKey (key_ret a) (Window s0) GLFW_KEY_ESCAPE s0 of (k, s1) \<Rightarrow>
      if k = GLFW_PRESS then (False, s1)
      else
        (case glfwWindowShouldClose (close_ret a) (Window s1) s1 of (c, s2) \<Rightarrow>
         if c \<noteq> 0 then (False, s2)
         else (continueGame, glfwPollEvents s2)))"

subsection \<open>The entry point\<close>

text \<open>
  \<open>int main()\<close> has no parameters. \<open>GLApplication\<close> is declared in \<open>Main.h\<close>, which is
  not among the sources: its constructor, \<open>GLMain\<close> and its destructor are parameters.
  The destructor of the local runs after the return value has been computed.
\<close>

definition main ::
  "('w \<Rightarrow> 'a \<times> 'w) \<Rightarrow> ('a \<Rightarrow> 'w \<Rightarrow> int \<times> 'w) \<Rightarrow> ('a \<Rightarrow> 'w \<Rightarrow> 'w) \<Rightarrow> 'w \<Rightarrow> int \<times> 'w" where
  "main construct GLMain destruct w0 =
     (case construct w0 of (application, w1) \<Rightarrow>
      case GLMain application w1 of (rc, w2) \<Rightarrow>
        (rc, destruct application w2))"

subsection \<open>Sequences of operations on an initialized WindowManager\<close>

datatype op = OpSwapBuffers | OpProcessInput answers bool | OpDestroy

fun step :: "op \<Rightarrow> world \<Rightarrow> world" where
  "step OpSwapBuffers s = SwapBuffers s"
| "step (OpProcessInput a continueGame) s = snd (ProcessInput a continueGame s)"
| "step OpDestroy s = Destroy s"

fun run :: "op list \<Rightarrow> world \<Rightarrow> world" where
  "run [] s = s"
| "run (x # xs) s = run xs (step x s)"

text \<open>The library calls made between a state and a later one.\<close>

definition new_calls :: "world \<Rightarrow> world \<Rightarrow> call list" where
  "new_calls s s' = drop (length (calls s)) (calls s')"

text \<open>
  A state before anything has run, and a platform on which every call of \<open>Initialize\<close>
  succeeds; the examples below start from them.
\<close>

definition world0 :: world where
  "world0 = \<lparr>Window = nullptr, glewExperimental = 0, stderr = [], calls = [],
             initialized = False, hints = Map.empty, windows = Map.empty, current = nullptr\<rparr>"

definition platform_ok :: platform where
  "platform_ok = \<lparr>glfwInit_ret = 1, primary_monitor = 7, created_window = 42, glewInit_ret = 0\<rparr>"

section \<open>Properties\<close>

subsection \<open>Unfolding the model\<close>

lemmas lib_defs = record_call_def fprintf_stderr_def glfwTerminate_def glfwInit_def
  glfwWindowHint_def glfwGetPrimaryMonitor_def glfwCreateWindow_def glfwMakeContextCurrent_def
  glfwSetInputMode_def glewInit_def glfwSwapBuffers_def glfwGetKey_def
  glfwWindowShouldClose_def glfwPollEvents_def

lemmas const_defs = nullptr_def GL_TRUE_def GLFW_PRESS_def GLFW_KEY_ESCAPE_def GLFW_SAMPLES_def
  GLFW_CONTEXT_VERSION_MAJOR_def GLFW_CONTEXT_VERSION_MINOR_def GLFW_OPENGL_PROFILE_def
  GLFW_OPENGL_CORE_PROFILE_def GLFW_STICKY_KEYS_def GLEW_OK_def

lemmas example_defs = world0_def platform_ok_def

subsection \<open>Helper facts\<close>

text \<open>
  None of the three operations that follow a successful \<open>Initialize\<close> assigns the
  \<open>Window\<close> field, and \<open>SwapBuffers\<close> and \<open>ProcessInput\<close> leave the windows of the
  library, its initialization and the current context as they are.
\<close>

lemma step_Window: "Window (step x s) = Window s"
  by (cases x) (simp_all add: SwapBuffers_def ProcessInput_def Destroy_def lib_defs)

lemma run_Window: "Window (run ops s) = Window s"
  by (induction ops arbitrary: s) (simp_all add: step_Window)

lemma step_keeps_library:
  "x \<noteq> OpDestroy \<Longrightarrow>
   windows (step x s) = windows s \<and> initialized (step x s) = initialized s \<and>
   current (step x s) = current s"
  by (cases x) (simp_all add: SwapBuffers_def ProcessInput_def lib_defs)

lemma run_keeps_library:
  "OpDestroy \<notin> set ops \<Longrightarrow>
   windows (run ops s) = windows s \<and> initialized (run ops s) = initialized s \<and>
   current (run ops s) = current s"
proof (induction ops arbitrary: s)
  case Nil
  show ?case by simp
next
  case (Cons x xs)
  from Cons.prems have "x \<noteq> OpDestroy" and "OpDestroy \<notin> set xs" by auto
  with Cons.IH [of "step x s"] step_keeps_library [of x s] show ?case by simp
qed

lemma Initialize_success_state:
  assumes "Initialize p width height strTitle bFullScreen s = (0, s')"
  shows "Window s' \<noteq> nullptr \<and>
         windows s' (Window s') \<noteq> None \<and> initialized s' \<and> current s' = Window s'"
  using assms
  by (auto simp add: Initialize_def Destroy_def lib_defs Let_def split: if_splits)

text \<open>
  What a call of \<open>Initialize\<close> does to the \<open>Window\<close> field: nothing when \<open>glfwInit\<close>
  fails, and otherwise the assignment of what \<open>glfwCreateWindow\<close> returned.
\<close>

lemma c_str_stops_at_NUL: "c_str (''Game'' @ [CHR 0x00] @ ''Tutorials'') = ''Game''"
  by (simp add: c_str_def)

lemma Initialize_Window:
  "Window (snd (Initialize p width height strTitle bFullScreen s)) =
     (if glfwInit_ret p = 0 then Window s else created_window p)"
  by (simp add: Initialize_def Destroy_def lib_defs Let_def)

subsection \<open>Initialize: return codes and diagnostics\<close>

text \<open>
  C1. \<open>Initialize\<close> fails with a negative status code when the windowing library fails to
  initialize (\<open>glfwInit\<close> returns 0) or the window cannot be created
  (\<open>glfwCreateWindow\<close> returns \<open>nullptr\<close>): the code returned is \<open>-1\<close>, whatever the
  arguments and the state before.
\<close>

theorem Initialize_fails_negative:
  "glfwInit_ret p = 0 \<or> created_window p = nullptr \<Longrightarrow>
   fst (Initialize p width height strTitle bFullScreen s) = - 1 \<and>
   fst (Initialize p width height strTitle bFullScreen s) < 0"
  by (auto simp add: Initialize_def Destroy_def lib_defs Let_def)

theorem Initialize_fails_negative_witness:
  "fst (Initialize (platform_ok\<lparr>glfwInit_ret := 0\<rparr>) 800 600 ''GameTutorials'' False world0) < 0 \<and>
   fst (Initialize (platform_ok\<lparr>created_window := nullptr\<rparr>) 800 600 ''GameTutorials'' True world0) < 0"
  using Initialize_fails_negative [of "platform_ok\<lparr>glfwInit_ret := 0\<rparr>" 800 600 "''GameTutorials''" False world0]
        Initialize_fails_negative [of "platform_ok\<lparr>created_window := nullptr\<rparr>" 800 600 "''GameTutorials''" True world0]
  by (simp add: platform_ok_def)

text \<open>
  C3. When the windowing library initializes, the window is created and the OpenGL function
  loader initializes (\<open>glewInit\<close> returns \<open>GLEW_OK\<close>), \<open>Initialize\<close> returns 0, a
  non-negative status code.
\<close>

theorem Initialize_success_zero:
  "glfwInit_ret p \<noteq> 0 \<Longrightarrow> created_window p \<noteq> nullptr \<Longrightarrow> glewInit_ret p = GLEW_OK \<Longrightarrow>
   fst (Initialize p width height strTitle bFullScreen s) = 0 \<and>
   0 \<le> fst (Initialize p width height strTitle bFullScreen s)"
  by (simp add: Initialize_def lib_defs Let_def)

theorem Initialize_success_zero_witness:
  "fst (Initialize platform_ok 800 600 ''GameTutorials'' False world0) = 0"
  using Initialize_success_zero [of platform_ok 800 600 "''GameTutorials''" False world0]
  by (simp add: platform_ok_def const_defs)

text \<open>
  C4. Every call of \<open>Initialize\<close> either returns 0 and writes nothing to standard error, or
  returns \<open>-1\<close> and appends exactly one diagnostic to standard error, the one of the step
  that failed. So no failure is silent, and no diagnostic comes with a success.
\<close>

theorem Initialize_failure_reported:
  assumes "Initialize p width height strTitle bFullScreen s = (rc, s')"
  shows "(rc = 0 \<and> stderr s' = stderr s \<and>
          glfwInit_ret p \<noteq> 0 \<and> created_window p \<noteq> nullptr \<and> glewInit_ret p = GLEW_OK) \<or>
         (rc = - 1 \<and> stderr s' = stderr s @ [msg_glfw] \<and> glfwInit_ret p = 0) \<or>
         (rc = - 1 \<and> stderr s' = stderr s @ [msg_window] \<and>
          glfwInit_ret p \<noteq> 0 \<and> created_window p = nullptr) \<or>
         (rc = - 1 \<and> stderr s' = stderr s @ [msg_glew] \<and>
          glfwInit_ret p \<noteq> 0 \<and> created_window p \<noteq> nullptr \<and> glewInit_ret p \<noteq> GLEW_OK)"
  using assms
  by (auto simp add: Initialize_def Destroy_def lib_defs Let_def split: if_splits)

theorem Initialize_failure_reported_witness:
  "fst (Initialize (platform_ok\<lparr>glewInit_ret := 1\<rparr>) 800 600 ''GameTutorials'' False world0) = - 1 \<and>
   stderr (snd (Initialize (platform_ok\<lparr>glewInit_ret := 1\<rparr>) 800 600 ''GameTutorials'' False world0))
     = [msg_glew]"
  using Initialize_failure_reported [OF prod.collapse [symmetric],
          of "platform_ok\<lparr>glewInit_ret := 1\<rparr>" 800 600 "''GameTutorials''" False world0]
  by (simp add: Initialize_def lib_defs Let_def example_defs const_defs)

subsection \<open>Initialize: the window and its hints\<close>

text \<open>
  C5. On every successful call, the library calls of \<open>Initialize\<close> are, in this order:
  \<open>glfwInit\<close>, the four hints (4 samples, context version 4.4, core profile), then
  \<open>glfwCreateWindow\<close> with the width, the height and the C string of the title of the call
  (after \<open>glfwGetPrimaryMonitor\<close> for a fullscreen window), then making the context current, sticky keys and \<open>glewInit\<close>. The
  values of the hints are constants: they depend on no argument. The window the handle
  names was made with these four hints, and its context is the current one.
\<close>

theorem Initialize_fixed_hints:
  assumes "Initialize p width height strTitle bFullScreen s = (0, s')"
  shows "new_calls s s' =
           [GlfwInit,
            GlfwWindowHint GLFW_SAMPLES 4,
            GlfwWindowHint GLFW_CONTEXT_VERSION_MAJOR 4,
            GlfwWindowHint GLFW_CONTEXT_VERSION_MINOR 4,
            GlfwWindowHint GLFW_OPENGL_PROFILE GLFW_OPENGL_CORE_PROFILE]
           @ (if bFullScreen
              then [GlfwGetPrimaryMonitor,
                    GlfwCreateWindow width height (c_str strTitle) (primary_monitor p) nullptr]
              else [GlfwCreateWindow width height (c_str strTitle) nullptr nullptr])
           @ [GlfwMakeContextCurrent (Window s'),
              GlfwSetInputMode (Window s') GLFW_STICKY_KEYS GL_TRUE,
              GlewInit] \<and>
         (\<exists>win. windows s' (Window s') = Some win \<and>
            win_hints win GLFW_SAMPLES = Some 4 \<and>
            win_hints win GLFW_CONTEXT_VERSION_MAJOR = Some 4 \<and>
            win_hints win GLFW_CONTEXT_VERSION_MINOR = Some 4 \<and>
            win_hints win GLFW_OPENGL_PROFILE = Some GLFW_OPENGL_CORE_PROFILE \<and>
            win_width win = width \<and> win_height win = height \<and>
            win_title win = c_str strTitle) \<and>
         current s' = Window s'"
  using assms
  by (auto simp add: Initialize_def Destroy_def lib_defs Let_def new_calls_def const_defs
      split: if_splits)

theorem Initialize_fixed_hints_witness:
  "fst (Initialize platform_ok 800 600 ''GameTutorials'' True world0) = 0 \<and>
   calls (snd (Initialize platform_ok 800 600 ''GameTutorials'' True world0)) =
     [GlfwInit,
      GlfwWindowHint GLFW_SAMPLES 4,
      GlfwWindowHint GLFW_CONTEXT_VERSION_MAJOR 4,
      GlfwWindowHint GLFW_CONTEXT_VERSION_MINOR 4,
      GlfwWindowHint GLFW_OPENGL_PROFILE GLFW_OPENGL_CORE_PROFILE,
      GlfwGetPrimaryMonitor,
      GlfwCreateWindow 800 600 ''GameTutorials'' 7 nullptr,
      GlfwMakeContextCurrent 42,
      GlfwSetInputMode 42 GLFW_STICKY_KEYS GL_TRUE,
      GlewInit]"
proof -
  have rc: "fst (Initialize platform_ok 800 600 ''GameTutorials'' True world0) = 0"
    by (simp add: Initialize_def lib_defs Let_def example_defs const_defs)
  have w: "Window (snd (Initialize platform_ok 800 600 ''GameTutorials'' True world0)) = 42"
    by (simp add: Initialize_def lib_defs Let_def example_defs const_defs)
  have ok: "Initialize platform_ok 800 600 ''GameTutorials'' True world0
              = (0, snd (Initialize platform_ok 800 600 ''GameTutorials'' True world0))"
    by (simp add: prod_eq_iff rc)
  have "calls world0 = []"
    by (simp add: world0_def)
  moreover have "c_str ''GameTutorials'' = ''GameTutorials''"
    by (simp add: c_str_def)
  ultimately show ?thesis
    using Initialize_fixed_hints [OF ok] rc w
    by (simp add: new_calls_def platform_ok_def)
qed

text \<open>
  C9. Cleanup on failure is asymmetric. When the library initializes and window creation
  fails, the last library call of \<open>Initialize\<close> is \<open>glfwTerminate\<close> (through \<open>Destroy\<close>) and
  the library is left terminated. When the window is created and \<open>glewInit\<close> fails,
  \<open>Initialize\<close> returns \<open>-1\<close> without any call of \<open>glfwTerminate\<close>: the library stays
  initialized, and the window stays alive with its context current.
\<close>

theorem Initialize_cleanup_asymmetric:
  assumes "glfwInit_ret p \<noteq> 0"
      and "Initialize p width height strTitle bFullScreen s = (rc, s')"
  shows "(created_window p = nullptr \<longrightarrow>
            rc = - 1 \<and> last (new_calls s s') = GlfwTerminate \<and>
            \<not> initialized s' \<and> windows s' = Map.empty \<and> current s' = nullptr) \<and>
         (created_window p \<noteq> nullptr \<and> glewInit_ret p \<noteq> GLEW_OK \<longrightarrow>
            rc = - 1 \<and> GlfwTerminate \<notin> set (new_calls s s') \<and>
            initialized s' \<and> Window s' = created_window p \<and>
            windows s' (Window s') \<noteq> None \<and> current s' = Window s')"
  using assms
  by (auto simp add: Initialize_def Destroy_def lib_defs Let_def new_calls_def split: if_splits)

theorem Initialize_cleanup_asymmetric_witness:
  "fst (Initialize (platform_ok\<lparr>created_window := nullptr\<rparr>) 800 600 ''GameTutorials'' False world0) = - 1 \<and>
   \<not> initialized (snd (Initialize (platform_ok\<lparr>created_window := nullptr\<rparr>) 800 600 ''GameTutorials'' False world0)) \<and>
   fst (Initialize (platform_ok\<lparr>glewInit_ret := 1\<rparr>) 800 600 ''GameTutorials'' False world0) = - 1 \<and>
   initialized (snd (Initialize (platform_ok\<lparr>glewInit_ret := 1\<rparr>) 800 600 ''GameTutorials'' False world0)) \<and>
   windows (snd (Initialize (platform_ok\<lparr>glewInit_ret := 1\<rparr>) 800 600 ''GameTutorials'' False world0)) 42 \<noteq> None"
proof -
  have a: "glfwInit_ret (platform_ok\<lparr>created_window := nullptr\<rparr>) \<noteq> 0"
    and b: "glfwInit_ret (platform_ok\<lparr>glewInit_ret := 1\<rparr>) \<noteq> 0"
    and c: "created_window (platform_ok\<lparr>created_window := nullptr\<rparr>) = nullptr"
    and d: "created_window (platform_ok\<lparr>glewInit_ret := 1\<rparr>) \<noteq> nullptr"
    and e: "glewInit_ret (platform_ok\<lparr>glewInit_ret := 1\<rparr>) \<noteq> GLEW_OK"
    and f: "created_window (platform_ok\<lparr>glewInit_ret := 1\<rparr>) = 42"
    by (simp_all add: platform_ok_def const_defs)
  from c Initialize_cleanup_asymmetric [OF a prod.collapse [symmetric],
          of 800 600 "''GameTutorials''" False world0]
  have one:
    "fst (Initialize (platform_ok\<lparr>created_window := nullptr\<rparr>) 800 600 ''GameTutorials'' False world0) = - 1"
    "\<not> initialized (snd (Initialize (platform_ok\<lparr>created_window := nullptr\<rparr>) 800 600 ''GameTutorials'' False world0))"
    by blast+
  from d e Initialize_cleanup_asymmetric [OF b prod.collapse [symmetric],
          of 800 600 "''GameTutorials''" False world0]
  have two:
    "fst (Initialize (platform_ok\<lparr>glewInit_ret := 1\<rparr>) 800 600 ''GameTutorials'' False world0) = - 1"
    "initialized (snd (Initialize (platform_ok\<lparr>glewInit_ret := 1\<rparr>) 800 600 ''GameTutorials'' False world0))"
    "Window (snd (Initialize (platform_ok\<lparr>glewInit_ret := 1\<rparr>) 800 600 ''GameTutorials'' False world0))
       = created_window (platform_ok\<lparr>glewInit_ret := 1\<rparr>)"
    "windows (snd (Initialize (platform_ok\<lparr>glewInit_ret := 1\<rparr>) 800 600 ''GameTutorials'' False world0))
       (Window (snd (Initialize (platform_ok\<lparr>glewInit_ret := 1\<rparr>) 800 600 ''GameTutorials'' False world0)))
       \<noteq> None"
    by blast+
  from two(3,4) f
  have "windows (snd (Initialize (platform_ok\<lparr>glewInit_ret := 1\<rparr>) 800 600 ''GameTutorials'' False world0)) 42
          \<noteq> None"
    by (simp only: simp_thms)
  with one two(1,2) show ?thesis
    by blast
qed

subsection \<open>ProcessInput\<close>

text \<open>
  C2, as stated, says that every call of \<open>ProcessInput\<close> polls the events. It does not:
  on an initialized window manager, with the Escape key reported pressed, the call
  returns \<open>false\<close> after the single library call \<open>glfwGetKey\<close>, and \<open>glfwPollEvents\<close> is
  not called.
\<close>

theorem ProcessInput_counterexample:
  "fst (ProcessInput \<lparr>key_ret = GLFW_PRESS, close_ret = 0\<rparr> True
          (snd (Initialize platform_ok 800 600 ''GameTutorials'' False world0))) = False \<and>
   new_calls (snd (Initialize platform_ok 800 600 ''GameTutorials'' False world0))
     (snd (ProcessInput \<lparr>key_ret = GLFW_PRESS, close_ret = 0\<rparr> True
            (snd (Initialize platform_ok 800 600 ''GameTutorials'' False world0))))
     = [GlfwGetKey 42 GLFW_KEY_ESCAPE] \<and>
   GlfwPollEvents \<notin> set (new_calls (snd (Initialize platform_ok 800 600 ''GameTutorials'' False world0))
     (snd (ProcessInput \<lparr>key_ret = GLFW_PRESS, close_ret = 0\<rparr> True
            (snd (Initialize platform_ok 800 600 ''GameTutorials'' False world0)))))"
  by (simp add: ProcessInput_def Initialize_def lib_defs Let_def example_defs const_defs new_calls_def)

text \<open>
  C2, amended. \<open>ProcessInput\<close> first checks the exit key and, when it is not pressed, the
  close request; it returns \<open>false\<close> if either is reported, without polling the events.
  Otherwise it polls the events once and returns the flag it was given, unchanged. It
  changes nothing of the state but through these library calls.
\<close>

theorem ProcessInput_checks_then_polls:
  "fst (ProcessInput a continueGame s) =
     (if key_ret a = GLFW_PRESS \<or> close_ret a \<noteq> 0 then False else continueGame) \<and>
   snd (ProcessInput a continueGame s) =
     s\<lparr>calls := calls s @
         (if key_ret a = GLFW_PRESS then [GlfwGetKey (Window s) GLFW_KEY_ESCAPE]
          else if close_ret a \<noteq> 0
          then [GlfwGetKey (Window s) GLFW_KEY_ESCAPE, GlfwWindowShouldClose (Window s)]
          else [GlfwGetKey (Window s) GLFW_KEY_ESCAPE, GlfwWindowShouldClose (Window s),
                GlfwPollEvents])\<rparr> \<and>
   (GlfwPollEvents \<in> set (new_calls s (snd (ProcessInput a continueGame s)))
      \<longleftrightarrow> key_ret a \<noteq> GLFW_PRESS \<and> close_ret a = 0)"
  by (simp add: ProcessInput_def lib_defs new_calls_def)

theorem ProcessInput_checks_then_polls_witness:
  "fst (ProcessInput \<lparr>key_ret = 0, close_ret = 0\<rparr> True world0) = True \<and>
   fst (ProcessInput \<lparr>key_ret = 0, close_ret = 0\<rparr> False world0) = False \<and>
   fst (ProcessInput \<lparr>key_ret = 0, close_ret = 1\<rparr> True world0) = False \<and>
   fst (ProcessInput \<lparr>key_ret = GLFW_PRESS, close_ret = 0\<rparr> True world0) = False \<and>
   new_calls world0 (snd (ProcessInput \<lparr>key_ret = 0, close_ret = 0\<rparr> True world0))
     = [GlfwGetKey nullptr GLFW_KEY_ESCAPE, GlfwWindowShouldClose nullptr, GlfwPollEvents]"
  using ProcessInput_checks_then_polls [of "\<lparr>key_ret = 0, close_ret = 0\<rparr>" True world0]
        ProcessInput_checks_then_polls [of "\<lparr>key_ret = 0, close_ret = 0\<rparr>" False world0]
        ProcessInput_checks_then_polls [of "\<lparr>key_ret = 0, close_ret = 1\<rparr>" True world0]
        ProcessInput_checks_then_polls [of "\<lparr>key_ret = GLFW_PRESS, close_ret = 0\<rparr>" True world0]
  by (simp add: new_calls_def example_defs const_defs)

subsection \<open>Destroy\<close>

text \<open>
  C6. \<open>Destroy\<close> makes one library call, \<open>glfwTerminate\<close>. After it no window or context
  of the library is left, no context is current and the library is no longer
  initialized; in particular the window that a preceding \<open>Initialize\<close> created is gone.
\<close>

theorem Destroy_releases:
  "Destroy s = s\<lparr>calls := calls s @ [GlfwTerminate], initialized := False, hints := Map.empty,
                 windows := Map.empty, current := nullptr\<rparr> \<and>
   \<not> initialized (Destroy s) \<and> windows (Destroy s) = Map.empty \<and> current (Destroy s) = nullptr \<and>
   windows (Destroy (snd (Initialize p width height strTitle bFullScreen s)))
     (Window (snd (Initialize p width height strTitle bFullScreen s))) = None \<and>
   \<not> initialized (Destroy (snd (Initialize p width height strTitle bFullScreen s)))"
  by (simp add: Destroy_def lib_defs)

subsection \<open>The entry point\<close>

text \<open>
  C7. \<open>main\<close> takes no command-line arguments (the model has no such parameter), and the
  exit code is the value \<open>GLMain\<close> returns on the application object \<open>main\<close> constructed,
  as it is.
\<close>

theorem main_exit_code:
  "fst (main construct GLMain destruct w) = fst (GLMain (fst (construct w)) (snd (construct w)))"
  by (simp add: main_def split: prod.splits)

subsection \<open>The Window handle\<close>

text \<open>
  C8, as stated, says that no operation other than \<open>Destroy\<close> invalidates the handle. A
  further call of \<open>Initialize\<close> does: after a successful \<open>Initialize\<close> (handle 42), a second
  \<open>Initialize\<close> whose window cannot be created assigns \<open>nullptr\<close> to \<open>Window\<close> (the assignment
  comes before the test and before the call of \<open>Destroy\<close> inside \<open>Initialize\<close>).
\<close>

theorem Window_nulled_by_second_Initialize:
  "fst (Initialize platform_ok 800 600 ''GameTutorials'' False world0) = 0 \<and>
   Window (snd (Initialize platform_ok 800 600 ''GameTutorials'' False world0)) = 42 \<and>
   Window (snd (Initialize (platform_ok\<lparr>created_window := nullptr\<rparr>) 800 600 ''GameTutorials'' False
                  (snd (Initialize platform_ok 800 600 ''GameTutorials'' False world0)))) = nullptr"
  by (simp add: Initialize_def Destroy_def lib_defs Let_def example_defs const_defs)

text \<open>
  C8, amended. After a successful \<open>Initialize\<close> the \<open>Window\<close> handle is not \<open>nullptr\<close>, and through
  every sequence of \<open>SwapBuffers\<close> and \<open>ProcessInput\<close> calls that follows (no \<open>Destroy\<close>) it
  keeps its value, stays non-null, and names a live window of an initialized library.
  Besides \<open>Destroy\<close>, only a further call of \<open>Initialize\<close> touches it: that call leaves the
  handle as it is when \<open>glfwInit\<close> fails, and otherwise assigns what \<open>glfwCreateWindow\<close>
  returned, which is \<open>nullptr\<close> when the window cannot be created.
\<close>

theorem Window_valid_until_Destroy:
  assumes "Initialize p width height strTitle bFullScreen s = (0, s')"
      and "OpDestroy \<notin> set ops"
  shows "Window s' \<noteq> nullptr \<and>
         Window (run ops s') = Window s' \<and>
         Window (run ops s') \<noteq> nullptr \<and>
         windows (run ops s') (Window (run ops s')) \<noteq> None \<and>
         initialized (run ops s') \<and>
         Window (snd (Initialize q qwidth qheight qTitle qFullScreen (run ops s'))) =
           (if glfwInit_ret q = 0 then Window s' else created_window q)"
proof -
  from Initialize_success_state [OF assms(1)]
  have init: "Window s' \<noteq> nullptr" "windows s' (Window s') \<noteq> None" "initialized s'"
    by simp_all
  from run_keeps_library [OF assms(2), of s']
  have kept: "windows (run ops s') = windows s'" "initialized (run ops s') = initialized s'"
    by simp_all
  have same: "Window (run ops s') = Window s'"
    by (rule run_Window)
  have again: "Window (snd (Initialize q qwidth qheight qTitle qFullScreen (run ops s'))) =
                 (if glfwInit_ret q = 0 then Window (run ops s') else created_window q)"
    by (rule Initialize_Window)
  from init kept same again show ?thesis
    by simp
qed

theorem Window_valid_until_Destroy_witness:
  "Window (run [OpProcessInput \<lparr>key_ret = 0, close_ret = 0\<rparr> True, OpSwapBuffers,
                OpProcessInput \<lparr>key_ret = GLFW_PRESS, close_ret = 0\<rparr> True]
             (snd (Initialize platform_ok 800 600 ''GameTutorials'' False world0))) = 42 \<and>
   windows (run [OpProcessInput \<lparr>key_ret = 0, close_ret = 0\<rparr> True, OpSwapBuffers,
                OpProcessInput \<lparr>key_ret = GLFW_PRESS, close_ret = 0\<rparr> True]
             (snd (Initialize platform_ok 800 600 ''GameTutorials'' False world0))) 42 \<noteq> None"
proof -
  have rc: "fst (Initialize platform_ok 800 600 ''GameTutorials'' False world0) = 0"
    by (simp add: Initialize_def lib_defs Let_def example_defs const_defs)
  have w: "Window (snd (Initialize platform_ok 800 600 ''GameTutorials'' False world0)) = 42"
    by (simp add: Initialize_def lib_defs Let_def example_defs const_defs)
  have ok: "Initialize platform_ok 800 600 ''GameTutorials'' False world0
              = (0, snd (Initialize platform_ok 800 600 ''GameTutorials'' False world0))"
    by (simp add: prod_eq_iff rc)
  have ops: "OpDestroy \<notin> set [OpProcessInput \<lparr>key_ret = 0, close_ret = 0\<rparr> True, OpSwapBuffers,
                OpProcessInput \<lparr>key_ret = GLFW_PRESS, close_ret = 0\<rparr> True]"
    by simp
  from Window_valid_until_Destroy [where q = platform_ok and qwidth = 800 and qheight = 600
         and qTitle = "''GameTutorials''" and qFullScreen = False, OF ok ops]
  have same: "Window (run [OpProcessInput \<lparr>key_ret = 0, close_ret = 0\<rparr> True, OpSwapBuffers,
                OpProcessInput \<lparr>key_ret = GLFW_PRESS, close_ret = 0\<rparr> True]
             (snd (Initialize platform_ok 800 600 ''GameTutorials'' False world0)))
           = Window (snd (Initialize platform_ok 800 600 ''GameTutorials'' False world0))"
    and live: "windows (run [OpProcessInput \<lparr>key_ret = 0, close_ret = 0\<rparr> True, OpSwapBuffers,
                OpProcessInput \<lparr>key_ret = GLFW_PRESS, close_ret = 0\<rparr> True]
             (snd (Initialize platform_ok 800 600 ''GameTutorials'' False world0)))
           (Window (run [OpProcessInput \<lparr>key_ret = 0, close_ret = 0\<rparr> True, OpSwapBuffers,
                OpProcessInput \<lparr>key_ret = GLFW_PRESS, close_ret = 0\<rparr> True]
             (snd (Initialize platform_ok 800 600 ''GameTutorials'' False world0)))) \<noteq> None"
    by blast+
  from same w live show ?thesis
    by (simp only: simp_thms)
qed

text \<open>
  C10. \<open>SwapBuffers\<close>, \<open>ProcessInput\<close> and \<open>Destroy\<close> never assign the \<open>Window\<close> field: the
  handle is the same after each of them, and after any sequence of them.
\<close>

theorem Window_only_assigned_by_Initialize:
  "Window (SwapBuffers s) = Window s \<and>
   Window (snd (ProcessInput a continueGame s)) = Window s \<and>
   Window (Destroy s) = Window s \<and>
   Window (run ops s) = Window s"
  by (simp add: run_Window SwapBuffers_def ProcessInput_def Destroy_def lib_defs)

theorem Window_only_assigned_by_Initialize_witness:
  "Window (run [OpSwapBuffers, OpProcessInput \<lparr>key_ret = 0, close_ret = 0\<rparr> True, OpDestroy,
                OpSwapBuffers]
             (snd (Initialize platform_ok 800 600 ''GameTutorials'' False world0))) = 42"
  using Window_only_assigned_by_Initialize [of "snd (Initialize platform_ok 800 600 ''GameTutorials'' False world0)"
     "\<lparr>key_ret = 0, close_ret = 0\<rparr>" True
     "[OpSwapBuffers, OpProcessInput \<lparr>key_ret = 0, close_ret = 0\<rparr> True, OpDestroy, OpSwapBuffers]"]
  by (simp add: Initialize_def lib_defs Let_def example_defs const_defs)

end
